theory Spec2Isabelle
  imports Complex_Main
begin

section \<open>Data model\<close>

text \<open>
  Rows are the relational rows the handlers read and write.  Identifiers are
  opaque strings; a timestamp is an instant on the time line (its text form
  is not modelled).  A nullable column is an \<open>option\<close> (\<open>None\<close> is SQL
  NULL, which the client library hands to the program as \<open>null\<close>).  A finite
  JavaScript number is modelled by an exact rational; the IEEE rounding of
  the individual operations is outside this model.
\<close>

type_synonym uuid = string
type_synonym timestamp = int

record course =
  id :: uuid
  title :: string
  description :: "string option"
  lecturer_id :: "uuid option"
  created_by :: "uuid option"

record user_role =
  user_id :: uuid
  role :: string

record profile =
  id :: uuid
  full_name :: string
  email :: string

record enrollment =
  id :: uuid
  student_id :: uuid
  course_id :: uuid
  status :: string
  enrolled_at :: timestamp

record assignment =
  id :: uuid
  title :: string
  description :: "string option"
  course_id :: uuid
  due_date :: timestamp
  max_grade :: rat
  created_by :: uuid

record submission =
  id :: uuid
  assignment_id :: uuid
  student_id :: uuid
  content :: string
  file_url :: "string option"
  grade :: "rat option"
  feedback :: "string option"
  graded_by :: "uuid option"
  graded_at :: "timestamp option"
  submitted_at :: timestamp

text \<open>The body of one call of the \<open>send-notification\<close> function.\<close>

record notification =
  user_id :: uuid
  type :: string
  title :: string
  message :: string

text \<open>
  The world a handler runs against: the tables of the data store, and the
  calls of \<open>send-notification\<close> issued so far, oldest first.  The store
  applies every read and write it is sent: row-level policies and
  connectivity failures are not part of the repository and are not modelled.
\<close>

record store =
  courses :: "course list"
  user_roles :: "user_role list"
  profiles :: "profile list"
  enrollments :: "enrollment list"
  assignments :: "assignment list"
  submissions :: "submission list"
  outbox :: "notification list"

section \<open>The client library\<close>

datatype js_error = PostgrestError string | TypeError string

fun error_message :: "js_error \<Rightarrow> string" where
  "error_message (PostgrestError m) = m"
| "error_message (TypeError m) = m"

text \<open>
  A query answers \<open>{data, error}\<close>: \<open>Inl e\<close> is \<open>{data: null, error: e}\<close>
  and \<open>Inr d\<close> is \<open>{data: d, error: null}\<close>.
\<close>

type_synonym 'a pg_result = "js_error + 'a"

definition not_single :: js_error where
  "not_single = PostgrestError ''JSON object requested, multiple (or no) rows returned''"

text \<open>\<open>.single()\<close>: the result must be one row, otherwise an error and no data.\<close>

fun single :: "'a list \<Rightarrow> 'a pg_result" where
  "single [r] = Inr r"
| "single rs = Inl not_single"

text \<open>\<open>.maybeSingle()\<close>: no row is \<open>null\<close> without an error.\<close>

fun maybeSingle :: "'a list \<Rightarrow> 'a option pg_result" where
  "maybeSingle [] = Inr None"
| "maybeSingle [r] = Inr (Some r)"
| "maybeSingle rs = Inl not_single"

text \<open>Destructuring \<open>const { data: x } = ...\<close>, which drops the error.\<close>

fun data_of :: "'a pg_result \<Rightarrow> 'a option" where
  "data_of (Inl e) = None"
| "data_of (Inr d) = Some d"

text \<open>A plain \<open>select\<close> with its filters answers the matching rows.\<close>

definition select_where :: "('a \<Rightarrow> bool) \<Rightarrow> 'a list \<Rightarrow> 'a list pg_result" where
  "select_where p rows = Inr (filter p rows)"

text \<open>\<open>rows?.length || d\<close>\<close>

fun length_or :: "'a list option \<Rightarrow> nat \<Rightarrow> nat" where
  "length_or None d = d"
| "length_or (Some rows) d = (if length rows = 0 then d else length rows)"


text \<open>\<open>.select(...).eq(...).single()\<close>\<close>

definition select_single :: "('a \<Rightarrow> bool) \<Rightarrow> 'a list \<Rightarrow> 'a pg_result" where
  "select_single p rows =
     (case select_where p rows of Inl e \<Rightarrow> Inl e | Inr rs \<Rightarrow> single rs)"

text \<open>\<open>.select(...).eq(...).maybeSingle()\<close>\<close>

definition select_maybeSingle :: "('a \<Rightarrow> bool) \<Rightarrow> 'a list \<Rightarrow> 'a option pg_result" where
  "select_maybeSingle p rows =
     (case select_where p rows of Inl e \<Rightarrow> Inl e | Inr rs \<Rightarrow> maybeSingle rs)"

text \<open>
  \<open>.insert(row).select().single()\<close>: the row is appended to the table and
  answered.  The columns the request does not send (the identifier, the
  creation time, the nullable columns) are filled in by the data store; the
  caller of the model supplies the generated identifier and the current time.
\<close>

definition insert_single :: "'a \<Rightarrow> 'a list \<Rightarrow> 'a pg_result \<times> 'a list" where
  "insert_single r rows = (single [r], rows @ [r])"

text \<open>\<open>.insert(row)\<close> without a \<open>select\<close>: no data comes back.\<close>

definition insert_row :: "'a \<Rightarrow> 'a list \<Rightarrow> unit pg_result \<times> 'a list" where
  "insert_row r rows = (Inr (), rows @ [r])"

text \<open>\<open>.update(changes).eq(...)\<close> without a \<open>select\<close>: every matching row is changed.\<close>

definition update_where ::
  "('a \<Rightarrow> bool) \<Rightarrow> ('a \<Rightarrow> 'a) \<Rightarrow> 'a list \<Rightarrow> unit pg_result \<times> 'a list" where
  "update_where p f rows = (Inr (), map (\<lambda>r. if p r then f r else r) rows)"

text \<open>
  \<open>.update(changes).eq(...).select().single()\<close>: when the filter matches
  one row it is changed and answered; otherwise the data store rejects the
  request and changes nothing.
\<close>

definition update_single ::
  "('a \<Rightarrow> bool) \<Rightarrow> ('a \<Rightarrow> 'a) \<Rightarrow> 'a list \<Rightarrow> 'a pg_result \<times> 'a list" where
  "update_single p f rows =
     (case filter p rows of
        [r] \<Rightarrow> (Inr (f r), map (\<lambda>x. if p x then f x else x) rows)
      | _ \<Rightarrow> (Inl not_single, rows))"

text \<open>\<open>supabase.functions.invoke('send-notification', { body })\<close>; its answer is not read.\<close>

definition invoke_send_notification :: "notification \<Rightarrow> store \<Rightarrow> store" where
  "invoke_send_notification n supabase = supabase\<lparr>outbox := outbox supabase @ [n]\<rparr>"

text \<open>
  A key of a request or of an update payload may be absent (\<open>undefined\<close>):
  \<open>None\<close>.  An update leaves the column of an absent key as it is.
\<close>

type_synonym 'a field = "'a option"

fun set_column :: "'a field \<Rightarrow> 'a \<Rightarrow> 'a" where
  "set_column None old = old"
| "set_column (Some v) old = v"

section \<open>Responses\<close>

datatype 'a body = ErrorBody string | SuccessBody 'a

datatype 'a response = Response (status: nat) (body: "'a body")

text \<open>
  The \<open>try / catch\<close> of \<open>serve\<close>: a handler that throws answers 500 with
  the error's message.
\<close>

fun serve_catch :: "js_error + 'a response \<Rightarrow> 'a response" where
  "serve_catch (Inl e) = Response 500 (ErrorBody (error_message e))"
| "serve_catch (Inr r) = r"

section \<open>analytics-service\<close>

record analytics =
  total_students :: nat
  total_assignments :: nat
  total_submissions :: nat
  graded_submissions :: nat
  average_grade :: rat
  completion_rate :: int

record course_analytics_data =
  course_id :: uuid




record metrics =
  total_courses :: nat
  total_students :: nat
  total_lecturers :: nat
  total_assignments :: nat
  total_submissions :: nat
  total_enrollments :: nat

definition getSystemMetrics :: "store \<Rightarrow> js_error + metrics response" where
  "getSystemMetrics supabase =
     (let courses' = data_of (select_where (\<lambda>r. True) (courses supabase));
          students' = data_of (select_where (\<lambda>r. role r = ''student'') (user_roles supabase));
          lecturers' = data_of (select_where (\<lambda>r. role r = ''lecturer'') (user_roles supabase));
          assignments' = data_of (select_where (\<lambda>r. True) (assignments supabase));
          submissions' = data_of (select_where (\<lambda>r. True) (submissions supabase));
          enrollments' = data_of (select_where (\<lambda>r. True) (enrollments supabase))
      in Inr (Response 200 (SuccessBody
           \<lparr> metrics.total_courses = length_or courses' 0,
             total_students = length_or students' 0,
             total_lecturers = length_or lecturers' 0,
             total_assignments = length_or assignments' 0,
             total_submissions = length_or submissions' 0,
             total_enrollments = length_or enrollments' 0 \<rparr>)))"



section \<open>enrollment-service\<close>

record enroll_data =
  student_id :: uuid
  course_id :: uuid

text \<open>\<open>course?.title || 'the course'\<close>\<close>

fun title_or_the_course :: "course option \<Rightarrow> string" where
  "title_or_the_course None = ''the course''"
| "title_or_the_course (Some c) = (if course.title c = [] then ''the course'' else course.title c)"

definition enrollStudent ::
  "uuid \<Rightarrow> timestamp \<Rightarrow> store \<Rightarrow> enroll_data \<Rightarrow> (js_error + enrollment response) \<times> store" where
  \<open>enrollStudent new_id now supabase data =
     (let existing = data_of (select_single
            (\<lambda>e. enrollment.student_id e = enroll_data.student_id data
                 \<and> enrollment.course_id e = enroll_data.course_id data)
            (enrollments supabase))
      in if existing \<noteq> None
         then (Inr (Response 400 (ErrorBody ''Student already enrolled in this course'')), supabase)
         else
           let (inserted, rows) = insert_single
                 \<lparr> enrollment.id = new_id,
                   student_id = enroll_data.student_id data,
                   course_id = enroll_data.course_id data,
                   status = ''active'',
                   enrolled_at = now \<rparr>
                 (enrollments supabase);
               supabase1 = supabase\<lparr>enrollments := rows\<rparr>
           in case inserted of
                Inl error \<Rightarrow> (Inl error, supabase1)
              | Inr enrollment \<Rightarrow>
                  let course = data_of (select_single
                        (\<lambda>c. course.id c = enroll_data.course_id data) (courses supabase1));
                      supabase2 = invoke_send_notification
                        \<lparr> user_id = enroll_data.student_id data,
                          type = ''enrollment'',
                          title = ''Enrollment Successful'',
                          message = ''You have been enrolled in "'' @ title_or_the_course course @ ''".'' \<rparr>
                        supabase1
                  in (Inr (Response 200 (SuccessBody enrollment)), supabase2))\<close>

record update_status_data =
  id :: uuid
  status :: string

definition updateEnrollmentStatus ::
  "store \<Rightarrow> update_status_data \<Rightarrow> (js_error + enrollment response) \<times> store" where
  "updateEnrollmentStatus supabase data =
     (let (updated, rows) = update_single
            (\<lambda>e. enrollment.id e = update_status_data.id data)
            (\<lambda>e. e\<lparr>enrollment.status := update_status_data.status data\<rparr>)
            (enrollments supabase);
          supabase1 = supabase\<lparr>enrollments := rows\<rparr>
      in case updated of
           Inl error \<Rightarrow> (Inl error, supabase1)
         | Inr enrollment \<Rightarrow> (Inr (Response 200 (SuccessBody enrollment)), supabase1))"

section \<open>submission-service\<close>

record create_submission_data =
  assignment_id :: uuid
  student_id :: uuid
  content :: string
  file_url :: "string option"

text \<open>\<open>assignment.courses?.created_by\<close>, read through the embedded course.\<close>

definition creator_of :: "course list \<Rightarrow> assignment \<Rightarrow> uuid option" where
  "creator_of cs a =
     (case find (\<lambda>c. course.id c = assignment.course_id a) cs of
        None \<Rightarrow> None
      | Some c \<Rightarrow> course.created_by c)"

definition createSubmission ::
  "uuid \<Rightarrow> timestamp \<Rightarrow> store \<Rightarrow> create_submission_data
     \<Rightarrow> (js_error + submission response) \<times> store" where
  \<open>createSubmission new_id now supabase data =
     (let existing = data_of (select_single
            (\<lambda>s. submission.student_id s = create_submission_data.student_id data
                 \<and> submission.assignment_id s = create_submission_data.assignment_id data)
            (submissions supabase))
      in if existing \<noteq> None
         then (Inr (Response 400 (ErrorBody ''Assignment already submitted'')), supabase)
         else
           let (inserted, rows) = insert_single
                 \<lparr> submission.id = new_id,
                   assignment_id = create_submission_data.assignment_id data,
                   student_id = create_submission_data.student_id data,
                   content = create_submission_data.content data,
                   file_url = create_submission_data.file_url data,
                   grade = None, feedback = None, graded_by = None, graded_at = None,
                   submitted_at = now \<rparr>
                 (submissions supabase);
               supabase1 = supabase\<lparr>submissions := rows\<rparr>
           in case inserted of
                Inl error \<Rightarrow> (Inl error, supabase1)
              | Inr submission \<Rightarrow>
                  let assignment = data_of (select_single
                        (\<lambda>a. assignment.id a = create_submission_data.assignment_id data)
                        (assignments supabase1));
                      supabase2 =
                        (case assignment of
                           None \<Rightarrow> supabase1
                         | Some a \<Rightarrow>
                             (case creator_of (courses supabase1) a of
                                None \<Rightarrow> supabase1
                              | Some creator \<Rightarrow>
                                  if creator = [] then supabase1
                                  else invoke_send_notification
                                    \<lparr> user_id = creator,
                                      type = ''submission'',
                                      title = ''New Submission'',
                                      message = ''A student has submitted assignment "''
                                        @ assignment.title a @ ''".'' \<rparr>
                                    supabase1))
                  in (Inr (Response 200 (SuccessBody submission)), supabase2))\<close>

text \<open>
  The payload of an update of a submission: one optional entry per column.
  For a nullable column the entry, when present, is the new value or \<open>null\<close>.
\<close>

record submission_updates =
  assignment_id :: "uuid field"
  student_id :: "uuid field"
  content :: "string field"
  file_url :: "string option field"
  grade :: "rat option field"
  feedback :: "string option field"
  graded_by :: "uuid option field"
  graded_at :: "timestamp option field"
  submitted_at :: "timestamp field"

definition no_updates :: submission_updates where
  "no_updates =
     \<lparr> submission_updates.assignment_id = None, student_id = None, content = None,
       file_url = None, grade = None, feedback = None, graded_by = None, graded_at = None,
       submitted_at = None \<rparr>"

definition apply_updates :: "submission_updates \<Rightarrow> submission \<Rightarrow> submission" where
  "apply_updates u s =
     \<lparr> submission.id = submission.id s,
       assignment_id = set_column (submission_updates.assignment_id u) (submission.assignment_id s),
       student_id = set_column (submission_updates.student_id u) (submission.student_id s),
       content = set_column (submission_updates.content u) (submission.content s),
       file_url = set_column (submission_updates.file_url u) (submission.file_url s),
       grade = set_column (submission_updates.grade u) (submission.grade s),
       feedback = set_column (submission_updates.feedback u) (submission.feedback s),
       graded_by = set_column (submission_updates.graded_by u) (submission.graded_by s),
       graded_at = set_column (submission_updates.graded_at u) (submission.graded_at s),
       submitted_at = set_column (submission_updates.submitted_at u) (submission.submitted_at s) \<rparr>"

text \<open>\<open>const { id, ...updates } = data\<close>\<close>

record update_submission_data =
  id :: uuid
  updates :: submission_updates

definition updateSubmission ::
  "store \<Rightarrow> update_submission_data \<Rightarrow> (js_error + submission response) \<times> store" where
  "updateSubmission supabase data =
     (let (updated, rows) = update_single
            (\<lambda>s. submission.id s = update_submission_data.id data)
            (apply_updates (updates data))
            (submissions supabase);
          supabase1 = supabase\<lparr>submissions := rows\<rparr>
      in case updated of
           Inl error \<Rightarrow> (Inl error, supabase1)
         | Inr submission \<Rightarrow> (Inr (Response 200 (SuccessBody submission)), supabase1))"


section \<open>grading-service\<close>

record grade_data =
  submission_id :: uuid
  grade :: "rat option field"
  feedback :: "string option field"
  graded_by :: "uuid option field"

text \<open>
  \<open>`${submission.grade}`\<close>: \<open>null\<close> prints as \<open>null\<close>; a number prints
  through the builtin conversion of numbers to text, which is a parameter of
  the model.
\<close>

fun grade_text :: "(rat \<Rightarrow> string) \<Rightarrow> rat option \<Rightarrow> string" where
  "grade_text toString None = ''null''"
| "grade_text toString (Some g) = toString g"

text \<open>
  The answered row carries the embedded \<open>assignments(title)\<close>: the title of
  the assignment the submission points to, \<open>None\<close> when there is no such
  assignment (then \<open>submission.assignments\<close> is \<open>null\<close> and reading its
  \<open>title\<close> throws).
\<close>

definition gradeSubmission ::
  "(rat \<Rightarrow> string) \<Rightarrow> timestamp \<Rightarrow> store \<Rightarrow> grade_data
     \<Rightarrow> (js_error + (submission \<times> string option) response) \<times> store" where
  \<open>gradeSubmission toString now supabase data =
     (let (updated, rows) = update_single
            (\<lambda>s. submission.id s = submission_id data)
            (apply_updates (no_updates
               \<lparr> submission_updates.grade := grade_data.grade data,
                 submission_updates.feedback := grade_data.feedback data,
                 submission_updates.graded_by := grade_data.graded_by data,
                 submission_updates.graded_at := Some (Some now) \<rparr>))
            (submissions supabase);
          supabase1 = supabase\<lparr>submissions := rows\<rparr>
      in case updated of
           Inl error \<Rightarrow> (Inl error, supabase1)
         | Inr submission \<Rightarrow>
             (case find (\<lambda>a. assignment.id a = submission.assignment_id submission)
                     (assignments supabase1) of
                None \<Rightarrow>
                  (Inl (TypeError ''Cannot read properties of null (reading 'title')''), supabase1)
              | Some a \<Rightarrow>
                  (Inr (Response 200 (SuccessBody (submission, Some (assignment.title a)))),
                   invoke_send_notification
                     \<lparr> user_id = submission.student_id submission,
                       type = ''grade'',
                       title = ''Assignment Graded'',
                       message = ''Your submission for "'' @ assignment.title a
                         @ ''" has been graded. Grade: ''
                         @ grade_text toString (submission.grade submission) \<rparr>
                     supabase1)))\<close>

section \<open>assignment-service\<close>

record create_assignment_data =
  title :: string
  description :: "string option"
  course_id :: uuid
  due_date :: timestamp
  max_grade :: "rat option"
  created_by :: uuid

text \<open>
  \<open>data.max_grade || 100\<close>: an absent or \<open>null\<close> value (\<open>None\<close>) and the
  number 0 are falsy.
\<close>

fun max_grade_or_100 :: "rat option \<Rightarrow> rat" where
  "max_grade_or_100 None = 100"
| "max_grade_or_100 (Some g) = (if g = 0 then 100 else g)"

text \<open>The loop over the active enrollments, one notification each.\<close>

fun notify_students :: "string \<Rightarrow> enrollment list \<Rightarrow> store \<Rightarrow> store" where
  \<open>notify_students t [] supabase = supabase\<close>
| \<open>notify_students t (enrollment # rest) supabase =
     notify_students t rest
       (invoke_send_notification
          \<lparr> user_id = enrollment.student_id enrollment,
            type = ''assignment'',
            title = ''New Assignment'',
            message = ''New assignment "'' @ t @ ''" has been posted.'' \<rparr>
          supabase)\<close>

definition createAssignment ::
  "uuid \<Rightarrow> store \<Rightarrow> create_assignment_data \<Rightarrow> (js_error + assignment response) \<times> store" where
  "createAssignment new_id supabase data =
     (let (inserted, rows) = insert_single
            \<lparr> assignment.id = new_id,
              title = create_assignment_data.title data,
              description = create_assignment_data.description data,
              course_id = create_assignment_data.course_id data,
              due_date = create_assignment_data.due_date data,
              max_grade = max_grade_or_100 (create_assignment_data.max_grade data),
              created_by = create_assignment_data.created_by data \<rparr>
            (assignments supabase);
          supabase1 = supabase\<lparr>assignments := rows\<rparr>
      in case inserted of
           Inl error \<Rightarrow> (Inl error, supabase1)
         | Inr assignment \<Rightarrow>
             let enrollments' = data_of (select_where
                   (\<lambda>e. enrollment.course_id e = create_assignment_data.course_id data
                        \<and> enrollment.status e = ''active'')
                   (enrollments supabase1));
                 supabase2 =
                   (case enrollments' of
                      None \<Rightarrow> supabase1
                    | Some es \<Rightarrow>
                        if length es > 0
                        then notify_students (assignment.title assignment) es supabase1
                        else supabase1)
             in (Inr (Response 200 (SuccessBody assignment)), supabase2))"


section \<open>Client pages\<close>

text \<open>What a page does besides writing to the data store.\<close>

datatype ui_event = Toast string "string option" | Navigate string

text \<open>The answer of \<open>safeGetUser\<close>.\<close>

datatype session = Expired | Anonymous | LoggedIn uuid

subsection \<open>LecturerSubmissionsPage\<close>

record grading_page =
  gradingSubmission :: "submission option"
  assignment :: "assignment option"
  feedback :: string

text \<open>\<open>feedback || null\<close>\<close>

definition feedback_or_null :: "string \<Rightarrow> string option" where
  "feedback_or_null f = (if f = [] then None else Some f)"

text \<open>
  \<open>gradeNum\<close> is the value of \<open>parseInt(grade)\<close>, \<open>None\<close> being NaN.  The
  changes of the page's own state (the dialog closing, the list being
  fetched again) are not part of the result.
\<close>

definition handleGrade ::
  "(rat \<Rightarrow> string) \<Rightarrow> timestamp \<Rightarrow> session \<Rightarrow> int option \<Rightarrow> store \<Rightarrow> grading_page
     \<Rightarrow> ui_event list \<times> store" where
  "handleGrade toString now user gradeNum supabase page =
     (case (gradingSubmission page, grading_page.assignment page) of
        (Some gs, Some a) \<Rightarrow>
          if (case gradeNum of
                None \<Rightarrow> True
              | Some n \<Rightarrow> n < 0 \<or> of_int n > assignment.max_grade a)
          then ([Toast ''Invalid Grade''
                   (Some (''Grade must be between 0 and '' @ toString (assignment.max_grade a)))],
                supabase)
          else
            (case user of
               LoggedIn uid \<Rightarrow>
                 let (res, rows) = update_where
                       (\<lambda>s. submission.id s = submission.id gs)
                       (\<lambda>s. s\<lparr> submission.grade := map_option of_int gradeNum,
                               submission.feedback := feedback_or_null (grading_page.feedback page),
                               submission.graded_by := Some uid,
                               submission.graded_at := Some now \<rparr>)
                       (submissions supabase);
                     supabase1 = supabase\<lparr>submissions := rows\<rparr>
                 in (case res of
                       Inl error \<Rightarrow> ([Toast ''Error'' (Some (error_message error))], supabase1)
                     | Inr u \<Rightarrow> ([Toast ''Submission graded successfully!'' None], supabase1))
             | _ \<Rightarrow> ([Navigate ''/auth''], supabase))
      | _ \<Rightarrow> ([], supabase))"

subsection \<open>SubmissionPage\<close>

record submission_page =
  assignment :: "assignment option"
  submission :: "submission option"
  content :: string
  loading :: bool
  error :: "string option"

definition initial_page :: submission_page where
  "initial_page =
     \<lparr> submission_page.assignment = None, submission = None, content = [],
       loading = True, error = None \<rparr>"

definition fetchData ::
  "uuid option \<Rightarrow> session \<Rightarrow> store \<Rightarrow> submission_page \<Rightarrow> ui_event list \<times> submission_page" where
  "fetchData assignmentId user supabase page =
     (case assignmentId of
        None \<Rightarrow> ([], page\<lparr>error := Some ''No assignment ID provided'', loading := False\<rparr>)
      | Some aid \<Rightarrow>
          (case user of
             Expired \<Rightarrow>
               ([Toast ''Session expired'' (Some ''Please log in again.''), Navigate ''/auth''],
                page\<lparr>loading := False\<rparr>)
           | Anonymous \<Rightarrow>
               ([Toast ''Authentication required'' (Some ''Please log in to view submissions''),
                 Navigate ''/auth''],
                page\<lparr>loading := False\<rparr>)
           | LoggedIn uid \<Rightarrow>
               (case select_single (\<lambda>a. assignment.id a = aid) (assignments supabase) of
                  Inl assignmentError \<Rightarrow>
                    ([], page\<lparr>error := Some (''Could not load assignment: ''
                                     @ error_message assignmentError),
                              loading := False\<rparr>)
                | Inr assignmentData \<Rightarrow>
                    let page1 = page\<lparr>submission_page.assignment := Some assignmentData\<rparr>
                    in (case select_maybeSingle
                               (\<lambda>s. submission.assignment_id s = aid
                                    \<and> submission.student_id s = uid)
                               (submissions supabase) of
                          Inr (Some submissionData) \<Rightarrow>
                            ([], page1\<lparr>submission := Some submissionData,
                                       content := submission.content submissionData,
                                       loading := False\<rparr>)
                        | _ \<Rightarrow> ([], page1\<lparr>loading := False\<rparr>)))))"

definition handleSubmit ::
  "uuid \<Rightarrow> timestamp \<Rightarrow> uuid option \<Rightarrow> session \<Rightarrow> store \<Rightarrow> submission_page
     \<Rightarrow> ui_event list \<times> store" where
  "handleSubmit new_id now assignmentId user supabase page =
     (case assignmentId of
        None \<Rightarrow> ([], supabase)
      | Some aid \<Rightarrow>
          (case user of
             LoggedIn uid \<Rightarrow>
               (case submission page of
                  Some s \<Rightarrow>
                    let (res, rows) = update_where
                          (\<lambda>r. submission.id r = submission.id s)
                          (\<lambda>r. r\<lparr>submission.content := submission_page.content page\<rparr>)
                          (submissions supabase);
                        supabase1 = supabase\<lparr>submissions := rows\<rparr>
                    in (case res of
                          Inl err \<Rightarrow> ([Toast ''Error'' (Some (error_message err))], supabase1)
                        | Inr u \<Rightarrow>
                            ([Toast ''Submission updated successfully!'' None,
                              Navigate ''/assignments''], supabase1))
                | None \<Rightarrow>
                    let (res, rows) = insert_row
                          \<lparr> submission.id = new_id,
                            assignment_id = aid,
                            student_id = uid,
                            content = submission_page.content page,
                            file_url = None, grade = None, feedback = None,
                            graded_by = None, graded_at = None,
                            submitted_at = now \<rparr>
                          (submissions supabase);
                        supabase1 = supabase\<lparr>submissions := rows\<rparr>
                    in (case res of
                          Inl err \<Rightarrow> ([Toast ''Error'' (Some (error_message err))], supabase1)
                        | Inr u \<Rightarrow>
                            ([Toast ''Submission created successfully!'' None,
                              Navigate ''/assignments''], supabase1)))
           | _ \<Rightarrow> ([], supabase)))"

definition isGraded :: "submission_page \<Rightarrow> bool" where
  "isGraded page =
     (case submission page of None \<Rightarrow> False | Some s \<Rightarrow> submission.grade s \<noteq> None)"

definition canEdit :: "submission_page \<Rightarrow> bool" where
  "canEdit page = (\<not> isGraded page)"

text \<open>
  What the page shows: the loading line, the error card, or the form with
  its text area (disabled or not) and, when there is one, the label of its
  submit button.
\<close>

datatype view = LoadingView | ErrorView string | FormView bool "string option"

definition render :: "submission_page \<Rightarrow> view" where
  "render page =
     (if loading page then LoadingView
      else if error page \<noteq> None \<or> submission_page.assignment page = None
      then ErrorView (case error page of
                        None \<Rightarrow> ''Assignment not found''
                      | Some e \<Rightarrow> if e = [] then ''Assignment not found'' else e)
      else FormView (\<not> canEdit page)
             (if canEdit page
              then Some (if submission page \<noteq> None then ''Update Submission''
                         else ''Submit Assignment'')
              else None))"

text \<open>
  The student submitting the form: possible when the page shows a submit
  button, and then \<open>onSubmit\<close> runs \<open>handleSubmit\<close>.
\<close>

definition click_submit ::
  "uuid \<Rightarrow> timestamp \<Rightarrow> uuid option \<Rightarrow> session \<Rightarrow> store \<Rightarrow> submission_page
     \<Rightarrow> (ui_event list \<times> store) option" where
  "click_submit new_id now assignmentId user supabase page =
     (case render page of
        FormView disabled (Some label) \<Rightarrow>
          Some (handleSubmit new_id now assignmentId user supabase page)
      | _ \<Rightarrow> None)"


subsection \<open>StudentProgressPage\<close>

text \<open>
  The page divides by a column of the data store, so its numbers include the
  values a division by zero gives.  The sign of a zero is not modelled.
\<close>

datatype number = Num rat | PosInfinity | NegInfinity | NaN





record assignment_progress =
  assignment_id :: uuid
  assignment_title :: string
  max_grade :: rat
  due_date :: timestamp
  submitted :: bool
  grade :: "rat option"

record student_progress =
  student_id :: uuid
  student_name :: string
  student_email :: string
  assignments :: "assignment_progress list"
  averageGrade :: "number option"
  submissionRate :: number









section \<open>The notions the properties are stated in\<close>

text \<open>What a handler answered, when it answered with success.\<close>

fun payload :: "js_error + 'a response \<Rightarrow> 'a option" where
  "payload (Inr (Response st (SuccessBody a))) = Some a"
| "payload r = None"

subsection \<open>Course analytics\<close>






subsection \<open>Enrollments and submissions of a pair\<close>

definition enrollments_for :: "store \<Rightarrow> uuid \<Rightarrow> uuid \<Rightarrow> enrollment list" where
  "enrollments_for st s c =
     filter (\<lambda>e. enrollment.student_id e = s \<and> enrollment.course_id e = c) (store.enrollments st)"

definition active_enrollments_for :: "store \<Rightarrow> uuid \<Rightarrow> uuid \<Rightarrow> enrollment list" where
  "active_enrollments_for st s c =
     filter (\<lambda>e. enrollment.status e = ''active'') (enrollments_for st s c)"

definition submissions_for :: "store \<Rightarrow> uuid \<Rightarrow> uuid \<Rightarrow> submission list" where
  "submissions_for st s a =
     filter (\<lambda>r. submission.student_id r = s \<and> submission.assignment_id r = a) (store.submissions st)"

subsection \<open>Student progress\<close>








subsection \<open>Rows a request stands for\<close>

text \<open>The assignment a create request stands for, with maximum grade \<open>m\<close>.\<close>

definition assignment_row :: "uuid \<Rightarrow> create_assignment_data \<Rightarrow> rat \<Rightarrow> assignment" where
  "assignment_row i d m =
     \<lparr> assignment.id = i,
       title = create_assignment_data.title d,
       description = create_assignment_data.description d,
       course_id = create_assignment_data.course_id d,
       due_date = create_assignment_data.due_date d,
       max_grade = m,
       created_by = create_assignment_data.created_by d \<rparr>"

text \<open>The enrollment an enroll request stands for.\<close>

definition enrollment_row :: "uuid \<Rightarrow> timestamp \<Rightarrow> enroll_data \<Rightarrow> enrollment" where
  "enrollment_row i t d =
     \<lparr> enrollment.id = i, student_id = enroll_data.student_id d,
       course_id = enroll_data.course_id d, status = ''active'', enrolled_at = t \<rparr>"

definition duplicate_enrollment :: "enrollment response" where
  "duplicate_enrollment = Response 400 (ErrorBody ''Student already enrolled in this course'')"

text \<open>The row of a submission after a grading with these values at this time.\<close>

definition graded_row ::
  "rat option \<Rightarrow> string option \<Rightarrow> uuid option \<Rightarrow> timestamp \<Rightarrow> submission \<Rightarrow> submission" where
  "graded_row g fb gb t s =
     s\<lparr> submission.grade := g, submission.feedback := fb, submission.graded_by := gb,
        submission.graded_at := Some t \<rparr>"

definition grade_notification :: "uuid \<Rightarrow> string \<Rightarrow> string \<Rightarrow> notification" where
  \<open>grade_notification student t grade_txt =
     \<lparr> notification.user_id = student, type = ''grade'', title = ''Assignment Graded'',
       message = ''Your submission for "'' @ t @ ''" has been graded. Grade: '' @ grade_txt \<rparr>\<close>

text \<open>The contents and the grades of the submissions in a store, in table order.\<close>

definition contents :: "store \<Rightarrow> string list" where
  "contents st = map submission.content (store.submissions st)"

definition grades :: "store \<Rightarrow> rat option list" where
  "grades st = map submission.grade (store.submissions st)"

section \<open>Example data\<close>

definition empty_store :: store where
  "empty_store =
     \<lparr> courses = [], user_roles = [], profiles = [], enrollments = [], assignments = [],
       submissions = [], outbox = [] \<rparr>"

definition ex_assignment :: "uuid \<Rightarrow> timestamp \<Rightarrow> assignment" where
  "ex_assignment i d =
     \<lparr> assignment.id = i, title = ''Homework'', description = None, course_id = ''c1'',
       due_date = d, max_grade = 100, created_by = ''l1'' \<rparr>"

definition ex_submission :: "uuid \<Rightarrow> uuid \<Rightarrow> uuid \<Rightarrow> rat option \<Rightarrow> submission" where
  "ex_submission i a s g =
     \<lparr> submission.id = i, assignment_id = a, student_id = s, content = ''draft'',
       file_url = None, grade = g, feedback = None, graded_by = None, graded_at = None,
       submitted_at = 1 \<rparr>"

definition ex_enrollment :: "uuid \<Rightarrow> uuid \<Rightarrow> string \<Rightarrow> enrollment" where
  "ex_enrollment i s st =
     \<lparr> enrollment.id = i, student_id = s, course_id = ''c1'', status = st, enrolled_at = 0 \<rparr>"

definition ex_course :: course where
  "ex_course =
     \<lparr> course.id = ''c1'', title = ''Algebra'', description = None,
       lecturer_id = Some ''l1'', created_by = Some ''l1'' \<rparr>"

text \<open>
  One course with two active students and four assignments; the first
  student has handed in three of them, graded 70, 80 and 90 out of 100.
\<close>

definition ex_store :: store where
  "ex_store =
     \<lparr> courses = [ex_course],
       user_roles = [\<lparr> user_role.user_id = ''s1'', role = ''student'' \<rparr>,
                     \<lparr> user_role.user_id = ''s2'', role = ''student'' \<rparr>,
                     \<lparr> user_role.user_id = ''l1'', role = ''lecturer'' \<rparr>],
       profiles = [\<lparr> profile.id = ''s1'', full_name = ''Ada'', email = ''ada@example.org'' \<rparr>],
       enrollments = [ex_enrollment ''e1'' ''s1'' ''active'', ex_enrollment ''e2'' ''s2'' ''active''],
       assignments = [ex_assignment ''a1'' 4, ex_assignment ''a2'' 3, ex_assignment ''a3'' 2,
                      ex_assignment ''a4'' 1],
       submissions = [ex_submission ''u1'' ''a1'' ''s1'' (Some 70),
                      ex_submission ''u2'' ''a2'' ''s1'' (Some 80),
                      ex_submission ''u3'' ''a3'' ''s1'' (Some 90),
                      ex_submission ''u4'' ''a1'' ''s2'' None],
       outbox = [] \<rparr>"

subsection \<open>Requests and pages\<close>

definition ex_create_assignment :: "rat option \<Rightarrow> create_assignment_data" where
  "ex_create_assignment m =
     \<lparr> create_assignment_data.title = ''Quiz'', description = None, course_id = ''c1'',
       due_date = 9, max_grade = m, created_by = ''l1'' \<rparr>"

definition enroll_s1 :: enroll_data where
  "enroll_s1 = \<lparr> enroll_data.student_id = ''s1'', course_id = ''c1'' \<rparr>"

definition create_s1_a1 :: create_submission_data where
  "create_s1_a1 =
     \<lparr> create_submission_data.assignment_id = ''a1'', student_id = ''s1'',
       content = ''third'', file_url = None \<rparr>"

definition ex_grade_data :: "rat \<Rightarrow> grade_data" where
  "ex_grade_data g =
     \<lparr> submission_id = ''u4'', grade = Some (Some g), feedback = Some (Some ''Well done''),
       graded_by = Some (Some ''l1'') \<rparr>"

text \<open>The text of the few numbers the examples print.\<close>

definition ex_toString :: "rat \<Rightarrow> string" where
  "ex_toString g =
     (if g = 85 then ''85'' else if g = 100 then ''100'' else if g = 250 then ''250'' else ''-5'')"

definition ex_grading_page :: grading_page where
  "ex_grading_page =
     \<lparr> gradingSubmission = Some (ex_submission ''u4'' ''a1'' ''s2'' None),
       grading_page.assignment = Some (ex_assignment ''a1'' 4),
       feedback = ''Well done'' \<rparr>"

definition change_content :: update_submission_data where
  "change_content =
     \<lparr> update_submission_data.id = ''u1'',
       updates = no_updates\<lparr>submission_updates.content := Some ''changed''\<rparr> \<rparr>"

subsection \<open>Histories\<close>

definition course_store :: store where
  "course_store = empty_store\<lparr>courses := [ex_course]\<rparr>"

text \<open>The student enrolls, and the enrollment is then marked as dropped.\<close>

definition dropped_store :: store where
  "dropped_store =
     snd (updateEnrollmentStatus (snd (enrollStudent ''e1'' 1 course_store enroll_s1))
            \<lparr> update_status_data.id = ''e1'', status = ''dropped'' \<rparr>)"

definition assignment_store :: store where
  "assignment_store = course_store\<lparr>store.assignments := [ex_assignment ''a1'' 4]\<rparr>"

text \<open>The submission page of student s1 for assignment a1, loaded before anything is handed in.\<close>

definition blank_page :: submission_page where
  "blank_page = snd (fetchData (Some ''a1'') (LoggedIn ''s1'') assignment_store initial_page)"

text \<open>The student hands in from two copies of that page, one after the other.\<close>

definition twice_submitted_store :: store where
  "twice_submitted_store =
     snd (handleSubmit ''u2'' 2 (Some ''a1'') (LoggedIn ''s1'')
            (snd (handleSubmit ''u1'' 1 (Some ''a1'') (LoggedIn ''s1'') assignment_store
                    (blank_page\<lparr>submission_page.content := ''first''\<rparr>)))
            (blank_page\<lparr>submission_page.content := ''second''\<rparr>))"

text \<open>Student s1 has handed in a draft for assignment a1 through the submission service.\<close>

definition draft_store :: store where
  "draft_store =
     snd (createSubmission ''u1'' 1 assignment_store
            \<lparr> create_submission_data.assignment_id = ''a1'', student_id = ''s1'',
              content = ''draft'', file_url = None \<rparr>)"

text \<open>The student's submission page, loaded while the draft is not graded.\<close>

definition draft_page :: submission_page where
  "draft_page = snd (fetchData (Some ''a1'') (LoggedIn ''s1'') draft_store initial_page)"

text \<open>The lecturer then grades the draft.\<close>

definition graded_store :: store where
  "graded_store =
     snd (gradeSubmission ex_toString 5 draft_store
            \<lparr> submission_id = ''u1'', grade = Some (Some 85), feedback = Some None,
              graded_by = Some (Some ''l1'') \<rparr>)"

text \<open>
  The student, still on the page loaded before the grading, changes the text
  and submits; the store that results, if the page lets the form be submitted.
\<close>

definition stale_submit_store :: "store option" where
  "stale_submit_store =
     map_option snd
       (click_submit ''u9'' 6 (Some ''a1'') (LoggedIn ''s1'') graded_store
          (draft_page\<lparr>submission_page.content := ''changed''\<rparr>))"

section \<open>Properties of the course analytics\<close>










section \<open>Properties of the system metrics\<close>

text \<open>
  C8.  When the tables of courses, user roles, assignments, submissions and
  enrollments are all empty, a system-metrics request succeeds and every
  count it answers is the number 0.
\<close>

theorem system_metrics_empty:
  assumes "courses st = []" and "user_roles st = []" and "store.assignments st = []"
    and "store.submissions st = []" and "enrollments st = []"
  shows "serve_catch (getSystemMetrics st)
     = Response 200 (SuccessBody
         \<lparr> metrics.total_courses = 0, total_students = 0, total_lecturers = 0,
           total_assignments = 0, total_submissions = 0, total_enrollments = 0 \<rparr>)"
  using assms by (simp add: getSystemMetrics_def select_where_def Let_def)

text \<open>C8 on the empty store.\<close>

theorem system_metrics_empty_witness:
  "courses empty_store = [] \<and> user_roles empty_store = [] \<and> store.assignments empty_store = []
   \<and> store.submissions empty_store = [] \<and> enrollments empty_store = []
   \<and> serve_catch (getSystemMetrics empty_store)
     = Response 200 (SuccessBody
         \<lparr> metrics.total_courses = 0, total_students = 0, total_lecturers = 0,
           total_assignments = 0, total_submissions = 0, total_enrollments = 0 \<rparr>)"
proof -
  have e: "courses empty_store = []" "user_roles empty_store = []"
    "store.assignments empty_store = []" "store.submissions empty_store = []"
    "enrollments empty_store = []"
    by (simp_all add: empty_store_def)
  show ?thesis using e system_metrics_empty [OF e] by simp
qed

section \<open>Properties of the assignment service\<close>

lemma notify_students_assignments:
  "store.assignments (notify_students t es st) = store.assignments st"
  by (induction es arbitrary: st) (simp_all add: invoke_send_notification_def)

lemma createAssignment_inserts:
  "payload (fst (createAssignment i st d))
     = Some (assignment_row i d (max_grade_or_100 (create_assignment_data.max_grade d)))
   \<and> store.assignments (snd (createAssignment i st d))
     = store.assignments st
         @ [assignment_row i d (max_grade_or_100 (create_assignment_data.max_grade d))]"
  by (simp add: createAssignment_def insert_single_def assignment_row_def select_where_def
      Let_def notify_students_assignments)

text \<open>
  C10.  A create-assignment request whose \<open>max_grade\<close> is absent, \<open>null\<close> or 0
  inserts the assignment with maximum grade 100; any other \<open>max_grade\<close> is
  stored as it was sent.
\<close>

theorem createAssignment_max_grade:
  "(create_assignment_data.max_grade d = None \<or> create_assignment_data.max_grade d = Some 0
      \<longrightarrow> payload (fst (createAssignment i st d)) = Some (assignment_row i d 100)
        \<and> store.assignments (snd (createAssignment i st d))
            = store.assignments st @ [assignment_row i d 100])
   \<and> (\<forall>v. create_assignment_data.max_grade d = Some v \<and> v \<noteq> 0
      \<longrightarrow> payload (fst (createAssignment i st d)) = Some (assignment_row i d v)
        \<and> store.assignments (snd (createAssignment i st d))
            = store.assignments st @ [assignment_row i d v])"
  using createAssignment_inserts [of i st d] by auto

text \<open>C10 for an absent maximum grade, for 0 and for 50.\<close>

theorem createAssignment_max_grade_witness:
  "payload (fst (createAssignment ''a5'' ex_store (ex_create_assignment None)))
     = Some (assignment_row ''a5'' (ex_create_assignment None) 100)
   \<and> payload (fst (createAssignment ''a5'' ex_store (ex_create_assignment (Some 0))))
     = Some (assignment_row ''a5'' (ex_create_assignment (Some 0)) 100)
   \<and> payload (fst (createAssignment ''a5'' ex_store (ex_create_assignment (Some 50))))
     = Some (assignment_row ''a5'' (ex_create_assignment (Some 50)) 50)"
proof -
  have m: "create_assignment_data.max_grade (ex_create_assignment None) = None"
    "create_assignment_data.max_grade (ex_create_assignment (Some 0)) = Some 0"
    "create_assignment_data.max_grade (ex_create_assignment (Some 50)) = Some 50"
    by (simp_all add: ex_create_assignment_def)
  show ?thesis
    using m createAssignment_max_grade [of "ex_create_assignment None" "''a5''" ex_store]
      createAssignment_max_grade [of "ex_create_assignment (Some 0)" "''a5''" ex_store]
      createAssignment_max_grade [of "ex_create_assignment (Some 50)" "''a5''" ex_store]
    by simp
qed

section \<open>Properties of the enrollment service\<close>

lemma single_filter_one: "filter p rows = [r] \<Longrightarrow> select_single p rows = Inr r"
  by (simp add: select_single_def select_where_def)

lemma single_filter_none: "filter p rows = [] \<Longrightarrow> select_single p rows = Inl not_single"
  by (simp add: select_single_def select_where_def)

lemma enrollStudent_existing:
  assumes "enrollments_for st (enroll_data.student_id d) (enroll_data.course_id d) = [e]"
  shows "enrollStudent i t st d = (Inr duplicate_enrollment, st)"
  using assms
  by (simp add: enrollStudent_def enrollments_for_def single_filter_one duplicate_enrollment_def)

lemma enrollStudent_new:
  assumes "enrollments_for st (enroll_data.student_id d) (enroll_data.course_id d) = []"
  shows "fst (enrollStudent i t st d) = Inr (Response 200 (SuccessBody (enrollment_row i t d)))"
    and "enrollments (snd (enrollStudent i t st d)) = enrollments st @ [enrollment_row i t d]"
  using assms
  by (simp_all add: enrollStudent_def enrollments_for_def single_filter_none insert_single_def
      enrollment_row_def invoke_send_notification_def Let_def)

lemma enrollments_for_after:
  assumes "enrollments_for st (enroll_data.student_id d) (enroll_data.course_id d) = []"
  shows "enrollments_for (snd (enrollStudent i t st d))
           (enroll_data.student_id d) (enroll_data.course_id d) = [enrollment_row i t d]"
proof -
  have "enrollments_for (snd (enrollStudent i t st d))
           (enroll_data.student_id d) (enroll_data.course_id d)
        = enrollments_for st (enroll_data.student_id d) (enroll_data.course_id d)
            @ [enrollment_row i t d]"
    unfolding enrollments_for_def enrollStudent_new(2) [OF assms]
    by (simp add: enrollment_row_def)
  then show ?thesis using assms by simp
qed

lemma dropped_store_eval:
  "enrollments dropped_store
     = [\<lparr> enrollment.id = ''e1'', student_id = ''s1'', course_id = ''c1'',
          status = ''dropped'', enrolled_at = 1 \<rparr>]"
  by (simp add: dropped_store_def updateEnrollmentStatus_def enrollStudent_def course_store_def
      empty_store_def enroll_s1_def select_single_def select_where_def insert_single_def
      update_single_def invoke_send_notification_def Let_def)

text \<open>
  C3, as stated, fails: after an enrollment has been marked as dropped the
  pair has no active enrollment, and still a new enroll request for the pair
  is answered with the duplicate error and inserts nothing.
\<close>

theorem enrollStudent_rejects_dropped:
  "active_enrollments_for dropped_store ''s1'' ''c1'' = []
   \<and> enrollStudent ''e2'' 2 dropped_store enroll_s1 = (Inr duplicate_enrollment, dropped_store)"
proof -
  have f: "enrollments_for dropped_store ''s1'' ''c1''
     = [\<lparr> enrollment.id = ''e1'', student_id = ''s1'', course_id = ''c1'',
          status = ''dropped'', enrolled_at = 1 \<rparr>]"
    by (simp add: enrollments_for_def dropped_store_eval)
  have "active_enrollments_for dropped_store ''s1'' ''c1'' = []"
    by (simp add: active_enrollments_for_def f)
  moreover have "enrollStudent ''e2'' 2 dropped_store enroll_s1
      = (Inr duplicate_enrollment, dropped_store)"
    by (rule enrollStudent_existing) (simp add: enroll_s1_def f)
  ultimately show ?thesis by simp
qed

text \<open>
  C3, amended.  When the enrollment table holds one row for the (student,
  course) pair, whatever its status, an enroll request is answered with the
  400 duplicate error and the store is left as it was.  When it holds no row
  for the pair, the request is answered with 200 and appends one enrollment
  with status \<open>active\<close>; a second enroll request for the pair is then answered
  with the duplicate error and adds no second row.
\<close>

theorem enrollStudent_once_per_pair:
  "(length (enrollments_for st (enroll_data.student_id d) (enroll_data.course_id d)) = 1
      \<longrightarrow> enrollStudent i t st d = (Inr duplicate_enrollment, st))
   \<and> (enrollments_for st (enroll_data.student_id d) (enroll_data.course_id d) = []
      \<longrightarrow> fst (enrollStudent i t st d) = Inr (Response 200 (SuccessBody (enrollment_row i t d)))
        \<and> enrollments (snd (enrollStudent i t st d)) = enrollments st @ [enrollment_row i t d]
        \<and> enrollStudent i' t' (snd (enrollStudent i t st d)) d
            = (Inr duplicate_enrollment, snd (enrollStudent i t st d)))"
proof (intro conjI impI)
  assume "length (enrollments_for st (enroll_data.student_id d) (enroll_data.course_id d)) = 1"
  then obtain e where
    "enrollments_for st (enroll_data.student_id d) (enroll_data.course_id d) = [e]"
    by (auto simp: length_Suc_conv)
  then show "enrollStudent i t st d = (Inr duplicate_enrollment, st)"
    by (rule enrollStudent_existing)
next
  assume n: "enrollments_for st (enroll_data.student_id d) (enroll_data.course_id d) = []"
  show "fst (enrollStudent i t st d) = Inr (Response 200 (SuccessBody (enrollment_row i t d)))"
    by (rule enrollStudent_new(1) [OF n])
  show "enrollments (snd (enrollStudent i t st d)) = enrollments st @ [enrollment_row i t d]"
    by (rule enrollStudent_new(2) [OF n])
  show "enrollStudent i' t' (snd (enrollStudent i t st d)) d
          = (Inr duplicate_enrollment, snd (enrollStudent i t st d))"
    by (rule enrollStudent_existing [OF enrollments_for_after [OF n]])
qed

text \<open>Both cases of the amended C3 on the example histories.\<close>

theorem enrollStudent_once_per_pair_witness:
  "length (enrollments_for dropped_store ''s1'' ''c1'') = 1
   \<and> enrollStudent ''e2'' 2 dropped_store enroll_s1 = (Inr duplicate_enrollment, dropped_store)
   \<and> enrollments_for course_store ''s1'' ''c1'' = []
   \<and> enrollments (snd (enrollStudent ''e1'' 1 course_store enroll_s1))
        = [enrollment_row ''e1'' 1 enroll_s1]
   \<and> enrollStudent ''e2'' 2 (snd (enrollStudent ''e1'' 1 course_store enroll_s1)) enroll_s1
        = (Inr duplicate_enrollment, snd (enrollStudent ''e1'' 1 course_store enroll_s1))"
proof -
  have a: "length (enrollments_for dropped_store (enroll_data.student_id enroll_s1)
             (enroll_data.course_id enroll_s1)) = 1"
    by (simp add: enrollments_for_def dropped_store_eval enroll_s1_def)
  have b: "enrollments_for course_store (enroll_data.student_id enroll_s1)
             (enroll_data.course_id enroll_s1) = []"
    by (simp add: enrollments_for_def course_store_def empty_store_def)
  have c: "enrollments course_store = []"
    by (simp add: course_store_def empty_store_def)
  have s: "enroll_data.student_id enroll_s1 = ''s1''" "enroll_data.course_id enroll_s1 = ''c1''"
    by (simp_all add: enroll_s1_def)
  show ?thesis
    using a b c enrollStudent_once_per_pair [of dropped_store enroll_s1 "''e2''" 2]
      enrollStudent_once_per_pair [of course_store enroll_s1 "''e1''" 1 "''e2''" 2]
    by (simp add: s)
qed

section \<open>Properties of the submission service\<close>

lemma blank_page_eval:
  "blank_page = initial_page\<lparr>submission_page.assignment := Some (ex_assignment ''a1'' 4),
                             loading := False\<rparr>"
  by (simp add: blank_page_def fetchData_def assignment_store_def course_store_def
      empty_store_def select_single_def select_maybeSingle_def select_where_def
      ex_assignment_def initial_page_def)

lemma twice_submitted_eval:
  "store.submissions twice_submitted_store
     = [(ex_submission ''u1'' ''a1'' ''s1'' None)\<lparr>submission.content := ''first''\<rparr>,
        (ex_submission ''u2'' ''a1'' ''s1'' None)
          \<lparr>submission.content := ''second'', submission.submitted_at := 2\<rparr>]"
  by (simp add: twice_submitted_store_def handleSubmit_def blank_page_eval initial_page_def
      insert_row_def assignment_store_def course_store_def empty_store_def ex_submission_def)

text \<open>
  With one submission of the pair on record the request is refused; with none
  the row is appended.
\<close>

lemma createSubmission_existing:
  assumes "submissions_for st (create_submission_data.student_id d)
             (create_submission_data.assignment_id d) = [r]"
  shows "createSubmission i t st d
     = (Inr (Response 400 (ErrorBody ''Assignment already submitted'')), st)"
  using assms
  by (simp add: createSubmission_def submissions_for_def single_filter_one)

lemma createSubmission_new:
  assumes "submissions_for st (create_submission_data.student_id d)
             (create_submission_data.assignment_id d) = []"
  shows "store.submissions (snd (createSubmission i t st d))
     = store.submissions st
         @ [\<lparr> submission.id = i,
              assignment_id = create_submission_data.assignment_id d,
              student_id = create_submission_data.student_id d,
              content = create_submission_data.content d,
              file_url = create_submission_data.file_url d,
              grade = None, feedback = None, graded_by = None, graded_at = None,
              submitted_at = t \<rparr>]"
  using assms
  by (simp add: createSubmission_def submissions_for_def single_filter_none insert_single_def
      invoke_send_notification_def Let_def split: option.split)

text \<open>
  C4.  A create-submission request for a pair that already has a submission
  is to be refused.  On a table that holds two submissions of the pair (the
  student having handed in from two copies of the submission page) the
  handler's existence check finds no single row, and the request is answered
  with success and inserts a third row.
\<close>

theorem createSubmission_third_row:
  "length (submissions_for twice_submitted_store ''s1'' ''a1'') = 2
   \<and> map_option submission.id
        (payload (fst (createSubmission ''u3'' 3 twice_submitted_store create_s1_a1))) = Some ''u3''
   \<and> length (submissions_for
        (snd (createSubmission ''u3'' 3 twice_submitted_store create_s1_a1)) ''s1'' ''a1'') = 3"
  by (simp add: submissions_for_def twice_submitted_eval createSubmission_def create_s1_a1_def
      select_single_def select_where_def insert_single_def ex_submission_def Let_def
      invoke_send_notification_def split: option.split)

section \<open>Properties of the grading\<close>

lemma update_single_one:
  "filter p rows = [r] \<Longrightarrow>
     update_single p f rows = (Inr (f r), map (\<lambda>x. if p x then f x else x) rows)"
  by (simp add: update_single_def)

lemma apply_grade_updates:
  "apply_updates (no_updates
       \<lparr> submission_updates.grade := Some g, submission_updates.feedback := Some fb,
         submission_updates.graded_by := Some gb,
         submission_updates.graded_at := Some (Some t) \<rparr>) s
     = graded_row g fb gb t s"
  by (simp add: apply_updates_def no_updates_def graded_row_def)

lemma gradeSubmission_run:
  assumes one: "filter (\<lambda>r. submission.id r = sid) (store.submissions st) = [s]"
    and asg: "find (\<lambda>a. assignment.id a = submission.assignment_id s) (store.assignments st)
                = Some a"
  shows "gradeSubmission toString t st
           \<lparr> submission_id = sid, grade = Some g, feedback = Some fb, graded_by = Some gb \<rparr>
         = (Inr (Response 200 (SuccessBody (graded_row g fb gb t s, Some (assignment.title a)))),
            st\<lparr> store.submissions :=
                   map (\<lambda>r. if submission.id r = sid then graded_row g fb gb t r else r)
                     (store.submissions st),
                 outbox := outbox st
                   @ [grade_notification (submission.student_id s) (assignment.title a)
                        (grade_text toString g)] \<rparr>)"
  using asg
  by (simp add: gradeSubmission_def update_single_one [OF one] apply_grade_updates
      invoke_send_notification_def grade_notification_def graded_row_def)

lemma gradeSubmission_writes:
  assumes one: "filter (\<lambda>r. submission.id r = sid) (store.submissions st) = [s]"
  shows "store.submissions (snd (gradeSubmission toString t st
           \<lparr> submission_id = sid, grade = Some g, feedback = Some fb, graded_by = Some gb \<rparr>))
         = map (\<lambda>r. if submission.id r = sid then graded_row g fb gb t r else r)
             (store.submissions st)"
  by (simp add: gradeSubmission_def update_single_one [OF one] apply_grade_updates
      invoke_send_notification_def Let_def split: option.split)

lemma ex_store_u4:
  "filter (\<lambda>r. submission.id r = ''u4'') (store.submissions ex_store)
     = [ex_submission ''u4'' ''a1'' ''s2'' None]"
  by (simp add: ex_store_def ex_submission_def)

lemma ex_store_a1:
  "find (\<lambda>a. assignment.id a = submission.assignment_id (ex_submission ''u4'' ''a1'' ''s2'' None))
     (store.assignments ex_store) = Some (ex_assignment ''a1'' 4)"
  by (simp add: ex_store_def ex_submission_def ex_assignment_def)

text \<open>
  C5.  A grade request on an existing submission, whose assignment exists,
  changes of that submission the columns \<open>grade\<close>, \<open>feedback\<close>, \<open>graded_by\<close>
  and \<open>graded_at\<close> and nothing else, in one update, answers 200, and sends one
  notification to the submission's student whose text ends with the grade.
\<close>

theorem gradeSubmission_frame:
  assumes "filter (\<lambda>r. submission.id r = sid) (store.submissions st) = [s]"
    and "find (\<lambda>a. assignment.id a = submission.assignment_id s) (store.assignments st) = Some a"
  shows \<open>gradeSubmission toString t st
           \<lparr> submission_id = sid, grade = Some (Some g), feedback = Some fb, graded_by = Some gb \<rparr>
         = (Inr (Response 200 (SuccessBody
              (s\<lparr> submission.grade := Some g, submission.feedback := fb,
                  submission.graded_by := gb, submission.graded_at := Some t \<rparr>,
               Some (assignment.title a)))),
            st\<lparr> store.submissions :=
                   map (\<lambda>r. if submission.id r = sid
                             then r\<lparr> submission.grade := Some g, submission.feedback := fb,
                                     submission.graded_by := gb, submission.graded_at := Some t \<rparr>
                             else r)
                     (store.submissions st),
                 outbox := outbox st
                   @ [\<lparr> notification.user_id = submission.student_id s,
                         type = ''grade'',
                         title = ''Assignment Graded'',
                         message = ''Your submission for "'' @ assignment.title a
                           @ ''" has been graded. Grade: '' @ toString g \<rparr>] \<rparr>)\<close>
  using gradeSubmission_run [OF assms, of toString t "Some g" fb gb]
  by (simp add: graded_row_def grade_notification_def)

text \<open>C5 on the example store: grading submission u4 with 85.\<close>

theorem gradeSubmission_frame_witness:
  \<open>filter (\<lambda>r. submission.id r = ''u4'') (store.submissions ex_store)
     = [ex_submission ''u4'' ''a1'' ''s2'' None]
   \<and> find (\<lambda>a. assignment.id a = submission.assignment_id (ex_submission ''u4'' ''a1'' ''s2'' None))
        (store.assignments ex_store) = Some (ex_assignment ''a1'' 4)
   \<and> fst (gradeSubmission ex_toString 7 ex_store (ex_grade_data 85))
     = Inr (Response 200 (SuccessBody
         (\<lparr> submission.id = ''u4'', assignment_id = ''a1'', student_id = ''s2'',
             content = ''draft'', file_url = None, grade = Some 85,
             feedback = Some ''Well done'', graded_by = Some ''l1'', graded_at = Some 7,
             submitted_at = 1 \<rparr>,
          Some ''Homework'')))
   \<and> outbox (snd (gradeSubmission ex_toString 7 ex_store (ex_grade_data 85)))
     = [\<lparr> notification.user_id = ''s2'', type = ''grade'', title = ''Assignment Graded'',
           message = ''Your submission for "Homework" has been graded. Grade: 85'' \<rparr>]\<close>
  using ex_store_u4 ex_store_a1
    gradeSubmission_frame [OF ex_store_u4 ex_store_a1, of ex_toString 7 85
      "Some ''Well done''" "Some ''l1''"]
  by (simp add: ex_grade_data_def ex_submission_def ex_assignment_def ex_toString_def ex_store_def)

text \<open>
  C6.  The lecturer's page refuses a grade below 0 or above the assignment's
  maximum grade: it shows the invalid-grade message and sends no update.  The
  grading handler applies the update whatever the grade is.
\<close>

theorem grade_range_checked_by_client_only:
  "(gradingSubmission page = Some gs \<and> grading_page.assignment page = Some a
      \<and> (n < 0 \<or> of_int n > assignment.max_grade a)
      \<longrightarrow> handleGrade toString t user (Some n) st page
          = ([Toast ''Invalid Grade''
                (Some (''Grade must be between 0 and '' @ toString (assignment.max_grade a)))],
             st))
   \<and> (filter (\<lambda>r. submission.id r = sid) (store.submissions st) = [s]
      \<longrightarrow> store.submissions (snd (gradeSubmission toString t st
             \<lparr> submission_id = sid, grade = Some (Some g), feedback = Some fb,
               graded_by = Some gb \<rparr>))
          = map (\<lambda>r. if submission.id r = sid
                      then r\<lparr> submission.grade := Some g, submission.feedback := fb,
                              submission.graded_by := gb, submission.graded_at := Some t \<rparr>
                      else r)
              (store.submissions st))"
proof (intro conjI impI)
  assume "gradingSubmission page = Some gs \<and> grading_page.assignment page = Some a
      \<and> (n < 0 \<or> of_int n > assignment.max_grade a)"
  then show "handleGrade toString t user (Some n) st page
          = ([Toast ''Invalid Grade''
                (Some (''Grade must be between 0 and '' @ toString (assignment.max_grade a)))],
             st)"
    by (auto simp: handleGrade_def)
next
  assume "filter (\<lambda>r. submission.id r = sid) (store.submissions st) = [s]"
  from gradeSubmission_writes [OF this, of toString t "Some g" fb gb]
  show "store.submissions (snd (gradeSubmission toString t st
             \<lparr> submission_id = sid, grade = Some (Some g), feedback = Some fb,
               graded_by = Some gb \<rparr>))
          = map (\<lambda>r. if submission.id r = sid
                      then r\<lparr> submission.grade := Some g, submission.feedback := fb,
                              submission.graded_by := gb, submission.graded_at := Some t \<rparr>
                      else r)
              (store.submissions st)"
    by (simp add: graded_row_def)
qed

text \<open>C6 on the example store: the grades 250 and -5 against a maximum of 100.\<close>

theorem grade_range_checked_by_client_only_witness:
  "handleGrade ex_toString 7 (LoggedIn ''l1'') (Some 250) ex_store ex_grading_page
     = ([Toast ''Invalid Grade'' (Some ''Grade must be between 0 and 100'')], ex_store)
   \<and> handleGrade ex_toString 7 (LoggedIn ''l1'') (Some (- 5)) ex_store ex_grading_page
     = ([Toast ''Invalid Grade'' (Some ''Grade must be between 0 and 100'')], ex_store)
   \<and> map submission.grade
        (store.submissions (snd (gradeSubmission ex_toString 7 ex_store (ex_grade_data 250))))
     = [Some 70, Some 80, Some 90, Some 250]
   \<and> map submission.grade
        (store.submissions (snd (gradeSubmission ex_toString 7 ex_store (ex_grade_data (- 5)))))
     = [Some 70, Some 80, Some 90, Some (- 5)]"
proof -
  have p: "gradingSubmission ex_grading_page = Some (ex_submission ''u4'' ''a1'' ''s2'' None)
      \<and> grading_page.assignment ex_grading_page = Some (ex_assignment ''a1'' 4)"
    by (simp add: ex_grading_page_def)
  have m: "assignment.max_grade (ex_assignment ''a1'' 4) = 100"
    by (simp add: ex_assignment_def)
  have c1: "handleGrade ex_toString 7 (LoggedIn ''l1'') (Some 250) ex_store ex_grading_page
     = ([Toast ''Invalid Grade'' (Some ''Grade must be between 0 and 100'')], ex_store)"
    using p grade_range_checked_by_client_only [where page = ex_grading_page
        and gs = "ex_submission ''u4'' ''a1'' ''s2'' None" and a = "ex_assignment ''a1'' 4"
        and n = 250 and toString = ex_toString and t = 7 and user = "LoggedIn ''l1''"
        and st = ex_store]
    by (simp add: m ex_toString_def)
  have c2: "handleGrade ex_toString 7 (LoggedIn ''l1'') (Some (- 5)) ex_store ex_grading_page
     = ([Toast ''Invalid Grade'' (Some ''Grade must be between 0 and 100'')], ex_store)"
    using p grade_range_checked_by_client_only [where page = ex_grading_page
        and gs = "ex_submission ''u4'' ''a1'' ''s2'' None" and a = "ex_assignment ''a1'' 4"
        and n = "- 5" and toString = ex_toString and t = 7 and user = "LoggedIn ''l1''"
        and st = ex_store]
    by (simp add: m ex_toString_def)
  have s1: "map submission.grade
        (store.submissions (snd (gradeSubmission ex_toString 7 ex_store (ex_grade_data 250))))
     = [Some 70, Some 80, Some 90, Some 250]"
    using ex_store_u4 grade_range_checked_by_client_only [where st = ex_store
        and sid = "''u4''" and s = "ex_submission ''u4'' ''a1'' ''s2'' None" and g = 250
        and fb = "Some ''Well done''" and gb = "Some ''l1''" and t = 7
        and toString = ex_toString]
    by (simp add: ex_grade_data_def) (simp add: ex_store_def ex_submission_def)
  have s2: "map submission.grade
        (store.submissions (snd (gradeSubmission ex_toString 7 ex_store (ex_grade_data (- 5)))))
     = [Some 70, Some 80, Some 90, Some (- 5)]"
    using ex_store_u4 grade_range_checked_by_client_only [where st = ex_store
        and sid = "''u4''" and s = "ex_submission ''u4'' ''a1'' ''s2'' None" and g = "- 5"
        and fb = "Some ''Well done''" and gb = "Some ''l1''" and t = 7
        and toString = ex_toString]
    by (simp add: ex_grade_data_def) (simp add: ex_store_def ex_submission_def)
  show ?thesis using c1 c2 s1 s2 by blast
qed

section \<open>Properties of the submission page\<close>

lemma draft_store_eval:
  "store.submissions draft_store = [(ex_submission ''u1'' ''a1'' ''s1'' None)]"
  "store.assignments draft_store = [ex_assignment ''a1'' 4]"
  by (simp_all add: draft_store_def createSubmission_def assignment_store_def course_store_def
      empty_store_def select_single_def select_where_def insert_single_def ex_submission_def
      ex_assignment_def ex_course_def creator_of_def invoke_send_notification_def Let_def)

lemma draft_page_eval:
  "draft_page = \<lparr> submission_page.assignment = Some (ex_assignment ''a1'' 4),
                   submission = Some (ex_submission ''u1'' ''a1'' ''s1'' None),
                   content = ''draft'', loading = False, error = None \<rparr>"
  by (simp add: draft_page_def fetchData_def draft_store_eval select_single_def
      select_maybeSingle_def select_where_def ex_assignment_def ex_submission_def
      initial_page_def)

lemma graded_store_eval:
  "store.submissions graded_store
     = [(ex_submission ''u1'' ''a1'' ''s1'' (Some 85))
          \<lparr>submission.graded_by := Some ''l1'', submission.graded_at := Some 5\<rparr>]"
  by (simp add: graded_store_def gradeSubmission_def draft_store_eval update_single_def
      apply_updates_def no_updates_def ex_submission_def ex_assignment_def
      invoke_send_notification_def Let_def)

text \<open>
  C9, as stated, fails: a submission that has been graded 85 still has its
  content changed, the grade staying 85, by the student submitting from a
  page loaded before the grading, and by an update request to the submission
  service.
\<close>

theorem graded_submission_still_changes:
  "grades graded_store = [Some 85]
   \<and> contents graded_store = [''draft'']
   \<and> canEdit draft_page
   \<and> map_option contents stale_submit_store = Some [''changed'']
   \<and> map_option grades stale_submit_store = Some [Some 85]
   \<and> contents (snd (updateSubmission graded_store change_content)) = [''changed'']
   \<and> grades (snd (updateSubmission graded_store change_content)) = [Some 85]"
  by (simp add: contents_def grades_def stale_submit_store_def graded_store_eval draft_page_eval
      canEdit_def isGraded_def click_submit_def render_def handleSubmit_def update_where_def
      updateSubmission_def update_single_def change_content_def apply_updates_def no_updates_def
      ex_submission_def Let_def)

lemma fetchData_loads:
  assumes "filter (\<lambda>a. assignment.id a = aid) (store.assignments st) = [a]"
    and "filter (\<lambda>r. submission.assignment_id r = aid \<and> submission.student_id r = uid)
           (store.submissions st) = [s]"
  shows "snd (fetchData (Some aid) (LoggedIn uid) st initial_page)
     = \<lparr> submission_page.assignment = Some a, submission = Some s,
         content = submission.content s, loading = False, error = None \<rparr>"
  using assms
  by (simp add: fetchData_def select_single_def select_maybeSingle_def select_where_def
      initial_page_def)

text \<open>
  C9, amended.  A submission page that has loaded the student's submission
  with a non-null grade shows its text area disabled and no submit button, so
  that nothing can be submitted from it, whatever the store holds by then.
\<close>

theorem graded_page_offers_no_submit:
  assumes "filter (\<lambda>a. assignment.id a = aid) (store.assignments st) = [a]"
    and "filter (\<lambda>r. submission.assignment_id r = aid \<and> submission.student_id r = uid)
           (store.submissions st) = [s]"
    and "submission.grade s \<noteq> None"
  shows "render (snd (fetchData (Some aid) (LoggedIn uid) st initial_page)) = FormView True None
    \<and> click_submit i t (Some aid) (LoggedIn uid) st'
         (snd (fetchData (Some aid) (LoggedIn uid) st initial_page)) = None"
  using assms(3)
  by (simp add: fetchData_loads [OF assms(1,2)] click_submit_def render_def canEdit_def
      isGraded_def)

text \<open>The amended C9 on the page loaded after the grading.\<close>

theorem graded_page_offers_no_submit_witness:
  "filter (\<lambda>a. assignment.id a = ''a1'') (store.assignments graded_store) = [ex_assignment ''a1'' 4]
   \<and> map submission.grade
        (filter (\<lambda>r. submission.assignment_id r = ''a1'' \<and> submission.student_id r = ''s1'')
           (store.submissions graded_store)) = [Some 85]
   \<and> render (snd (fetchData (Some ''a1'') (LoggedIn ''s1'') graded_store initial_page))
      = FormView True None
   \<and> click_submit ''u9'' 6 (Some ''a1'') (LoggedIn ''s1'') graded_store
         (snd (fetchData (Some ''a1'') (LoggedIn ''s1'') graded_store initial_page)) = None"
proof -
  have a: "filter (\<lambda>a. assignment.id a = ''a1'') (store.assignments graded_store)
      = [ex_assignment ''a1'' 4]"
    by (simp add: graded_store_def gradeSubmission_def draft_store_eval update_single_def
        invoke_send_notification_def ex_assignment_def ex_submission_def Let_def)
  have s: "filter (\<lambda>r. submission.assignment_id r = ''a1'' \<and> submission.student_id r = ''s1'')
           (store.submissions graded_store)
      = [(ex_submission ''u1'' ''a1'' ''s1'' (Some 85))
          \<lparr>submission.graded_by := Some ''l1'', submission.graded_at := Some 5\<rparr>]"
    by (simp add: graded_store_eval ex_submission_def)
  have g: "submission.grade ((ex_submission ''u1'' ''a1'' ''s1'' (Some 85))
          \<lparr>submission.graded_by := Some ''l1'', submission.graded_at := Some 5\<rparr>) \<noteq> None"
    by (simp add: ex_submission_def)
  show ?thesis
    using a graded_page_offers_no_submit [OF a s g, of "''u9''" 6 graded_store]
    by (simp add: s ex_submission_def)
qed

section \<open>Properties of the student progress report\<close>



















end
